theory Spec2Isabelle
  imports Main "HOL-Library.Word"
begin

unbundle bit_operations_syntax

section \<open>anerd: the Asynchronous Network Exchange Randomness Daemon\<close>

text \<open>
  A shallow embedding of \<^verbatim>\<open>src/anerd.c\<close>. The C functions \<^verbatim>\<open>anerd_salt\<close>,
  \<^verbatim>\<open>anerd_crc\<close>, \<^verbatim>\<open>anerd_server\<close> and \<^verbatim>\<open>anerd_client\<close> become HOL functions of
  the same names. Everything the operating system and libc hand to the program (the
  clock, the value of \<^verbatim>\<open>rand()\<close>, the datagrams, the bytes the random device delivers,
  the results of the library calls) is an explicit input; everything the program does
  to the outside (writes to the device, datagrams sent, messages, \<^verbatim>\<open>exit\<close>) is an
  event of the trace the functions return, in program order. The parameter \<^verbatim>\<open>size\<close>
  of the C code is written \<open>size'\<close>.
\<close>

subsection \<open>Clock, salt and checksum\<close>

type_synonym byte = "8 word"

text \<open>\<^verbatim>\<open>struct timeval\<close> on LP64: both fields are 64-bit integers.\<close>

record timeval =
  tv_sec :: "64 word"
  tv_usec :: "64 word"

text \<open>
  What one call of \<^verbatim>\<open>anerd_salt\<close> reads from the clock: \<open>tod\<close> is the result of
  \<^verbatim>\<open>gettimeofday\<close>, \<open>now\<close> the result of \<^verbatim>\<open>time(NULL)\<close>.
\<close>

record clock =
  tod :: timeval
  now :: "64 word"

text \<open>
  libc's generator is not part of the repository: \<open>rnd seed\<close> stands for the value
  \<^verbatim>\<open>rand()\<close> returns right after \<^verbatim>\<open>srand(seed)\<close>, an \<^verbatim>\<open>int\<close>.
\<close>

type_synonym libc_rand = "32 word \<Rightarrow> 32 word"

text \<open>
  \<^verbatim>\<open>anerd_salt\<close>, lines 47-61. \<^verbatim>\<open>this_usec = 1000000 * tv.tv_usec + tv.tv_usec\<close> is
  taken as written (both operands are \<^verbatim>\<open>tv_usec\<close>); the cast of \<^verbatim>\<open>time(NULL)\<close> to
  \<^verbatim>\<open>unsigned int\<close> is \<open>ucast\<close>, the conversion of the \<^verbatim>\<open>int\<close> from \<^verbatim>\<open>rand()\<close> to
  \<^verbatim>\<open>uint64_t\<close> is \<open>scast\<close>. The final XOR is applied on both branches.
\<close>

definition anerd_salt :: "libc_rand \<Rightarrow> clock \<Rightarrow> 64 word \<Rightarrow> 64 word" where
  "anerd_salt rnd clk salt =
     (let this_usec = 1000000 * tv_usec (tod clk) + tv_usec (tod clk);
          salt1 = (if salt = 0 then scast (rnd (ucast (now clk))) else salt)
      in salt1 XOR this_usec)"

text \<open>
  \<^verbatim>\<open>anerd_crc\<close>, lines 66-73: the loop adds the bytes \<^verbatim>\<open>data[0..len)\<close>, read as
  \<^verbatim>\<open>unsigned char\<close>, into the \<^verbatim>\<open>int\<close> accumulator \<^verbatim>\<open>crc\<close>. The accumulator is a
  32-bit word whose addition wraps around, and the result is its signed value.
\<close>

definition anerd_crc :: "byte list \<Rightarrow> nat \<Rightarrow> int" where
  "anerd_crc data len =
     sint (foldl (\<lambda>crc b. crc + ucast b) (0 :: 32 word) (take len data))"

subsection \<open>Events, addresses and the block buffer\<close>

text \<open>An IPv4 socket address; the port is kept in host byte order.\<close>

record sockaddr_in =
  sin_addr :: "32 word"
  sin_port :: "16 word"

definition INADDR_ANY :: "32 word" where
  "INADDR_ANY = 0"

definition INADDR_BROADCAST :: "32 word" where
  "INADDR_BROADCAST = 0xffffffff"

text \<open>\<^verbatim>\<open>htons(port)\<close> keeps the low 16 bits of the \<^verbatim>\<open>int\<close>.\<close>

definition htons :: "int \<Rightarrow> 16 word" where
  "htons port = word_of_int port"

text \<open>
  The calls a loop makes, as events. \<open>Recvfrom sock len\<close> is a receive of at most
  \<open>len\<close> bytes; \<open>Sendto sock addr bs\<close> hands the bytes \<open>bs\<close> to \<^verbatim>\<open>sendto\<close>;
  \<open>Fwrite bs\<close>, \<open>Fflush\<close> and \<open>Fread n\<close> are the calls on the stream of the random
  device (opened with mode \<^verbatim>\<open>a+\<close>, so that writes append); \<open>Syslog msg n crc addr\<close>
  is a log line with its byte count, checksum and peer; \<open>Poll t\<close> is a call of
  \<^verbatim>\<open>poll\<close> with the timeout \<open>t\<close> in milliseconds. \<open>Overrun i\<close> records a store
  through \<^verbatim>\<open>data\<close> at index \<open>i\<close> outside the allocated block: memory outside the
  block is not part of the model, and the run goes on as the compiled program does.
\<close>

datatype event =
    Perror string
  | Exit int
  | Return int
  | Bind int sockaddr_in
  | Poll int
  | Recvfrom int nat
  | Overrun nat
  | Syslog string nat int sockaddr_in
  | Fflush_stdout
  | Fwrite "byte list"
  | Fflush
  | Fread nat
  | Sendto int sockaddr_in "byte list"
  | Close int
  | Free
  | Fclose

fun is_Perror :: "event \<Rightarrow> bool" where
  "is_Perror (Perror m) = True"
| "is_Perror e = False"

fun is_Exit :: "event \<Rightarrow> bool" where
  "is_Exit (Exit c) = True"
| "is_Exit e = False"

fun is_Recvfrom :: "event \<Rightarrow> bool" where
  "is_Recvfrom (Recvfrom s n) = True"
| "is_Recvfrom e = False"

fun is_Overrun :: "event \<Rightarrow> bool" where
  "is_Overrun (Overrun i) = True"
| "is_Overrun e = False"

fun is_Sendto :: "event \<Rightarrow> bool" where
  "is_Sendto (Sendto s a bs) = True"
| "is_Sendto e = False"

fun is_Fread :: "event \<Rightarrow> bool" where
  "is_Fread (Fread n) = True"
| "is_Fread e = False"

text \<open>The calls on the stream of the random device.\<close>

fun is_pool_op :: "event \<Rightarrow> bool" where
  "is_pool_op (Fwrite bs) = True"
| "is_pool_op Fflush = True"
| "is_pool_op (Fread n) = True"
| "is_pool_op e = False"

text \<open>A datagram as it arrives: its payload and the address it came from.\<close>

record datagram =
  payload :: "byte list"
  sender :: sockaddr_in

text \<open>
  \<^verbatim>\<open>recvfrom(sock, data, size, 0, ...)\<close> on a datagram socket copies at most \<^verbatim>\<open>size\<close>
  bytes of the payload to the start of \<^verbatim>\<open>data\<close>, drops the rest and returns the number
  of bytes copied. The model covers the receives that deliver a datagram.
\<close>

definition recv_count :: "nat \<Rightarrow> byte list \<Rightarrow> nat" where
  "recv_count size' pl = min (length pl) size'"

text \<open>Copying \<open>bs\<close> to the start of the buffer; the bytes behind them stay.\<close>

definition copy_in :: "byte list \<Rightarrow> byte list \<Rightarrow> byte list" where
  "copy_in data bs = bs @ drop (length bs) data"

text \<open>
  \<^verbatim>\<open>data[i] = 0\<close> on a block of \<open>length data\<close> bytes: inside the block the byte is
  stored; at any other index the block is unchanged and the store is an \<open>Overrun\<close>.
\<close>

definition store_nul :: "byte list \<Rightarrow> nat \<Rightarrow> byte list" where
  "store_nul data i = (if i < length data then data[i := 0] else data)"

definition store_nul_overrun :: "byte list \<Rightarrow> nat \<Rightarrow> event list" where
  "store_nul_overrun data i = (if i < length data then [] else [Overrun i])"

text \<open>
  \<^verbatim>\<open>fread(data, n, 1, fp)\<close>: one item of \<open>n\<close> bytes is asked for, the device delivers
  the bytes \<open>avail\<close> (the first \<open>n\<close> of them are copied to \<^verbatim>\<open>data\<close>), and the result is
  the number of complete items read: 1 when all \<open>n\<close> bytes arrived, otherwise 0, and 0
  when \<open>n = 0\<close>.
\<close>

definition fread_items :: "nat \<Rightarrow> byte list \<Rightarrow> nat" where
  "fread_items n avail = (if n = 0 then 0 else length (take n avail) div n)"

text \<open>
  The eight bytes \<^verbatim>\<open>fwrite(&salt, sizeof(uint64_t), 1, fp)\<close> writes: the object
  representation of the salt, least significant byte first.
\<close>

definition salt_bytes :: "64 word \<Rightarrow> byte list" where
  "salt_bytes s = map (\<lambda>i. ucast (drop_bit (8 * i) s)) [0..<8]"

text \<open>
  Reading a 64-bit value back from bytes, least significant byte first: what a
  reader of the device's input sees as the \<^verbatim>\<open>uint64_t\<close> behind the donated bytes.
  It is used to state that the eight bytes written are the salt value.
\<close>

definition salt_of_bytes :: "byte list \<Rightarrow> 64 word" where
  "salt_of_bytes bs = foldr (\<lambda>b acc. ucast b OR push_bit 8 acc) bs 0"

text \<open>
  The results of the calls whose results the code never reads: the two \<^verbatim>\<open>fwrite\<close>
  calls and the \<^verbatim>\<open>fflush\<close> of a donation, and \<^verbatim>\<open>sendto\<close>.
\<close>

record libc_rets =
  fwrite_data_ret :: nat
  fwrite_salt_ret :: nat
  fflush_ret :: int
  sendto_ret :: int

subsection \<open>The responder: \<^verbatim>\<open>anerd_server\<close>\<close>

text \<open>
  The results of the setup calls of \<^verbatim>\<open>anerd_server\<close>. The local \<^verbatim>\<open>uint64_t salt\<close> is
  declared without an initialiser (line 85): \<open>sv_salt_indeterminate\<close> is the
  indeterminate value it holds when the loop is entered.
\<close>

record server_setup =
  sv_socket_ret :: int
  sv_fopen_ok :: bool
  sv_calloc_ok :: bool
  sv_bind_ret :: int
  sv_salt_indeterminate :: "64 word"

text \<open>
  What one iteration of the responder's loop receives from outside: the datagram, the
  clock readings of \<^verbatim>\<open>anerd_salt\<close>, the bytes the device delivers to the \<^verbatim>\<open>fread\<close>, and
  the unread results.
\<close>

record server_input =
  sv_dgram :: datagram
  sv_clock :: clock
  sv_pool :: "byte list"
  sv_rets :: libc_rets

record server_state =
  sv_data :: "byte list"
  sv_salt :: "64 word"

text \<open>The body of \<^verbatim>\<open>while (1)\<close>, lines 114-134.\<close>

definition server_iter ::
  "libc_rand \<Rightarrow> nat \<Rightarrow> int \<Rightarrow> server_state \<Rightarrow> server_input \<Rightarrow> event list \<times> server_state" where
  "server_iter rnd size' sock st inp =
     (let client_addr = sender (sv_dgram inp);
          bytes_read = recv_count size' (payload (sv_dgram inp));
          data1 = copy_in (sv_data st) (take bytes_read (payload (sv_dgram inp)));
          data2 = store_nul data1 bytes_read;
          salt1 = anerd_salt rnd (sv_clock inp) (sv_salt st);
          data3 = copy_in data2 (take bytes_read (sv_pool inp));
          st1 = \<lparr>sv_data = data3, sv_salt = salt1\<rparr>;
          common = [Recvfrom sock size'] @ store_nul_overrun data1 bytes_read @
                   [Syslog ''Server recv bcast'' bytes_read (anerd_crc data2 bytes_read) client_addr,
                    Fflush_stdout,
                    Fwrite (take bytes_read data2),
                    Fwrite (salt_bytes salt1),
                    Fflush,
                    Fread bytes_read]
      in if fread_items bytes_read (sv_pool inp) > 0
         then (common @
                 [Sendto sock client_addr (take bytes_read data3),
                  Syslog ''Server sent direct'' bytes_read (anerd_crc data3 bytes_read) client_addr],
               st1)
         else (common @ [Perror ''fread''], st1))"

text \<open>
  The loop never ends by itself: it is run over the inputs of its iterations, and at
  the end of the list the process is blocked in \<^verbatim>\<open>recvfrom\<close>.
\<close>

fun server_loop ::
  "libc_rand \<Rightarrow> nat \<Rightarrow> int \<Rightarrow> server_state \<Rightarrow> server_input list \<Rightarrow> event list" where
  "server_loop rnd size' sock st [] = []"
| "server_loop rnd size' sock st (inp # inps) =
     fst (server_iter rnd size' sock st inp)
       @ server_loop rnd size' sock (snd (server_iter rnd size' sock st inp)) inps"

text \<open>
  \<^verbatim>\<open>anerd_server\<close>, lines 82-140: the setup with its four checks, then the loop on a
  zeroed block of \<^verbatim>\<open>size\<close> bytes. A trace that ends with \<open>Exit 1\<close> is a terminated
  process.
\<close>

definition anerd_server ::
  "libc_rand \<Rightarrow> server_setup \<Rightarrow> nat \<Rightarrow> int \<Rightarrow> server_input list \<Rightarrow> event list" where
  "anerd_server rnd setup size' port inps =
     (let sock = sv_socket_ret setup;
          server_addr = \<lparr>sin_addr = INADDR_ANY, sin_port = htons port\<rparr>
      in if sock = - 1 then [Perror ''Socket'', Exit 1]
         else if \<not> sv_fopen_ok setup then [Perror ''fopen'', Exit 1]
         else if \<not> sv_calloc_ok setup then [Perror ''calloc'', Exit 1]
         else if sv_bind_ret setup = - 1 then [Bind sock server_addr, Perror ''bind'', Exit 1]
         else Bind sock server_addr #
              server_loop rnd size' sock
                \<lparr>sv_data = replicate size' 0, sv_salt = sv_salt_indeterminate setup\<rparr> inps)"

subsection \<open>The initiator: \<^verbatim>\<open>anerd_client\<close>\<close>

record client_setup =
  cl_calloc_ok :: bool
  cl_socket_ret :: int
  cl_setsockopt_ret :: int
  cl_fopen_ok :: bool

text \<open>
  The timeout \<^verbatim>\<open>interval*1000\<close> handed to \<^verbatim>\<open>poll\<close> (line 193): a product of two
  \<^verbatim>\<open>int\<close>s, kept as the signed value of its low 32 bits. From \<^verbatim>\<open>interval = 2147484\<close>
  on it wraps around; a negative timeout makes \<^verbatim>\<open>poll\<close> wait without limit.
\<close>

definition poll_timeout :: "int \<Rightarrow> int" where
  "poll_timeout interval = sint (word_of_int (interval * 1000) :: 32 word)"

text \<open>A reply: one positive \<^verbatim>\<open>poll\<close> and the datagram its \<^verbatim>\<open>recvfrom\<close> delivers.\<close>

record reply =
  rp_dgram :: datagram
  rp_clock :: clock
  rp_rets :: libc_rets

text \<open>
  One round of the outer loop: the bytes the device delivers to the draw, the unread
  result of the broadcast's \<^verbatim>\<open>sendto\<close>, and the replies that arrive before a \<^verbatim>\<open>poll\<close>
  comes back without one. That last \<^verbatim>\<open>poll\<close> of a round returns 0 (the timeout has
  passed) or -1 (an error); with a negative timeout only the error return ends a
  round.
\<close>

record round =
  rd_pool :: "byte list"
  rd_sendto_ret :: int
  rd_replies :: "reply list"

text \<open>
  The variables the loops change: the block, the salt, and \<^verbatim>\<open>server_addr\<close>, which is
  both the destination of \<^verbatim>\<open>sendto\<close> (line 188) and the place where \<^verbatim>\<open>recvfrom\<close>
  stores the sender of a reply (line 195).
\<close>

record client_state =
  cl_data :: "byte list"
  cl_salt :: "64 word"
  cl_addr :: sockaddr_in

text \<open>Lines 186-191: the draw and the broadcast.\<close>

definition client_draw ::
  "nat \<Rightarrow> int \<Rightarrow> client_state \<Rightarrow> round \<Rightarrow> event list \<times> client_state" where
  "client_draw size' sock st rd =
     (let data1 = copy_in (cl_data st) (take size' (rd_pool rd));
          st1 = st\<lparr>cl_data := data1\<rparr>
      in if fread_items size' (rd_pool rd) > 0
         then ([Fread size',
                Syslog ''Client sent bcast'' size' (anerd_crc data1 size') (cl_addr st),
                Sendto sock (cl_addr st) (take size' data1)],
               st1)
         else ([Fread size', Perror ''fread''], st1))"

text \<open>Lines 194-203: the body of the \<^verbatim>\<open>poll\<close> loop, for one reply.\<close>

definition client_reply ::
  "libc_rand \<Rightarrow> nat \<Rightarrow> int \<Rightarrow> client_state \<Rightarrow> reply \<Rightarrow> event list \<times> client_state" where
  "client_reply rnd size' sock st rp =
     (let bytes_read = recv_count size' (payload (rp_dgram rp));
          data1 = copy_in (cl_data st) (take bytes_read (payload (rp_dgram rp)));
          server_addr = sender (rp_dgram rp);
          data2 = store_nul data1 bytes_read;
          salt1 = anerd_salt rnd (rp_clock rp) (cl_salt st)
      in ([Recvfrom sock size'] @ store_nul_overrun data1 bytes_read @
          [Syslog ''Client recv direct'' bytes_read (anerd_crc data2 bytes_read) server_addr,
           Fwrite (take size' data2),
           Fwrite (salt_bytes salt1),
           Fflush],
          \<lparr>cl_data = data2, cl_salt = salt1, cl_addr = server_addr\<rparr>))"

text \<open>
  The \<^verbatim>\<open>poll\<close> loop, line 193, over the replies of a round: a \<^verbatim>\<open>poll\<close> before every
  reply, and the \<^verbatim>\<open>poll\<close> that ends the round.
\<close>

fun client_poll ::
  "libc_rand \<Rightarrow> nat \<Rightarrow> int \<Rightarrow> int \<Rightarrow> client_state \<Rightarrow> reply list
     \<Rightarrow> event list \<times> client_state" where
  "client_poll rnd size' sock interval st [] = ([Poll (poll_timeout interval)], st)"
| "client_poll rnd size' sock interval st (rp # rps) =
     (Poll (poll_timeout interval) # fst (client_reply rnd size' sock st rp)
        @ fst (client_poll rnd size' sock interval (snd (client_reply rnd size' sock st rp)) rps),
      snd (client_poll rnd size' sock interval (snd (client_reply rnd size' sock st rp)) rps))"

definition client_round ::
  "libc_rand \<Rightarrow> nat \<Rightarrow> int \<Rightarrow> int \<Rightarrow> client_state \<Rightarrow> round
     \<Rightarrow> event list \<times> client_state" where
  "client_round rnd size' sock interval st rd =
     (fst (client_draw size' sock st rd)
        @ fst (client_poll rnd size' sock interval (snd (client_draw size' sock st rd))
                (rd_replies rd)),
      snd (client_poll rnd size' sock interval (snd (client_draw size' sock st rd))
            (rd_replies rd)))"

text \<open>
  The outer loop, line 184, for a positive interval, run over its rounds; the trace
  stops where the list of rounds ends.
\<close>

fun client_loop ::
  "libc_rand \<Rightarrow> nat \<Rightarrow> int \<Rightarrow> int \<Rightarrow> client_state \<Rightarrow> round list \<Rightarrow> event list" where
  "client_loop rnd size' sock interval st [] = []"
| "client_loop rnd size' sock interval st (rd # rds) =
     fst (client_round rnd size' sock interval st rd)
       @ client_loop rnd size' sock interval
           (snd (client_round rnd size' sock interval st rd)) rds"

text \<open>
  \<^verbatim>\<open>anerd_client\<close>, lines 148-211. Only the failures of \<^verbatim>\<open>calloc\<close> and \<^verbatim>\<open>fopen\<close> leave
  through \<^verbatim>\<open>exit(1)\<close>; after a failed \<^verbatim>\<open>socket\<close> or \<^verbatim>\<open>setsockopt\<close> the function prints
  and goes on. The salt starts at 0 (line 156).
\<close>

definition anerd_client ::
  "libc_rand \<Rightarrow> client_setup \<Rightarrow> nat \<Rightarrow> int \<Rightarrow> int \<Rightarrow> round list \<Rightarrow> event list" where
  "anerd_client rnd setup size' port interval rds =
     (if \<not> cl_calloc_ok setup then [Perror ''calloc'', Exit 1]
      else
        let sock = cl_socket_ret setup;
            e1 = (if sock = - 1 then [Perror ''socket''] else []);
            e2 = (if cl_setsockopt_ret setup = - 1
                  then [Perror ''setsockopt (SO_BROADCAST)''] else []);
            server_addr = \<lparr>sin_addr = INADDR_BROADCAST, sin_port = htons port\<rparr>
        in if \<not> cl_fopen_ok setup then e1 @ e2 @ [Perror ''fopen'', Close sock, Exit 1]
           else if 0 < interval
           then e1 @ e2 @
                client_loop rnd size' sock interval
                  \<lparr>cl_data = replicate size' 0, cl_salt = 0, cl_addr = server_addr\<rparr> rds
           else e1 @ e2 @ [Close sock, Free, Fclose, Return 0])"

subsection \<open>Inputs of the examples\<close>

text \<open>The peer 203.0.113.5:40000.\<close>

definition peer1 :: sockaddr_in where
  "peer1 = \<lparr>sin_addr = 0xCB007105, sin_port = 40000\<rparr>"

text \<open>The clock at 100 s and 3 us.\<close>

definition clock1 :: clock where
  "clock1 = \<lparr>tod = \<lparr>tv_sec = 100, tv_usec = 3\<rparr>, now = 100\<rparr>"

text \<open>Every unread call succeeded, and the \<^verbatim>\<open>sendto\<close> sent \<open>n\<close> bytes.\<close>

definition rets_ok :: "nat \<Rightarrow> libc_rets" where
  "rets_ok n = \<lparr>fwrite_data_ret = 1, fwrite_salt_ret = 1, fflush_ret = 0, sendto_ret = int n\<rparr>"

text \<open>Every unread call failed: no item written, \<^verbatim>\<open>EOF\<close> from the flush, -1 from the send.\<close>

definition rets_failed :: libc_rets where
  "rets_failed = \<lparr>fwrite_data_ret = 0, fwrite_salt_ret = 0, fflush_ret = - 1, sendto_ret = - 1\<rparr>"

text \<open>A setup in which every call succeeds; \<open>g\<close> is what the uninitialised salt holds.\<close>

definition server_setup_ok :: "64 word \<Rightarrow> server_setup" where
  "server_setup_ok g =
     \<lparr>sv_socket_ret = 3, sv_fopen_ok = True, sv_calloc_ok = True, sv_bind_ret = 0,
      sv_salt_indeterminate = g\<rparr>"

definition client_setup_ok :: client_setup where
  "client_setup_ok =
     \<lparr>cl_calloc_ok = True, cl_socket_ret = 3, cl_setsockopt_ret = 0, cl_fopen_ok = True\<rparr>"

section \<open>Properties\<close>

subsection \<open>The salt\<close>

lemma anerd_salt_nonzero:
  "salt \<noteq> 0 \<Longrightarrow> anerd_salt rnd clk salt = salt XOR (1000001 * tv_usec (tod clk))"
  by (simp add: anerd_salt_def algebra_simps)

lemma anerd_salt_zero:
  "anerd_salt rnd clk 0 = scast (rnd (ucast (now clk))) XOR (1000001 * tv_usec (tod clk))"
  by (simp add: anerd_salt_def algebra_simps)

lemma anerd_salt_ignores_tv_sec:
  "anerd_salt rnd (clk\<lparr>tod := (tod clk)\<lparr>tv_sec := t\<rparr>\<rparr>) salt = anerd_salt rnd clk salt"
  by (simp add: anerd_salt_def)

lemma length_salt_bytes: "length (salt_bytes s) = 8"
  by (simp add: salt_bytes_def)

lemma salt_bytes_unfold:
  "salt_bytes s =
     [ucast s, ucast (drop_bit 8 s), ucast (drop_bit 16 s), ucast (drop_bit 24 s),
      ucast (drop_bit 32 s), ucast (drop_bit 40 s), ucast (drop_bit 48 s),
      ucast (drop_bit 56 s)]"
  by (simp add: salt_bytes_def upt_rec)

text \<open>The eight bytes written for a salt are that salt: they read back as its value.\<close>

lemma salt_of_bytes_salt_bytes: "salt_of_bytes (salt_bytes s) = s"
proof (rule bit_word_eqI)
  fix n
  assume "n < LENGTH(64)"
  then consider "n < 8" | "8 \<le> n \<and> n < 16" | "16 \<le> n \<and> n < 24" | "24 \<le> n \<and> n < 32"
    | "32 \<le> n \<and> n < 40" | "40 \<le> n \<and> n < 48" | "48 \<le> n \<and> n < 56" | "56 \<le> n \<and> n < 64"
    by fastforce
  then show "bit (salt_of_bytes (salt_bytes s)) n = bit s n"
  proof cases
    case 1
    then show ?thesis
      unfolding salt_bytes_unfold salt_of_bytes_def by (auto simp add: bit_simps)
  next
    case 2
    then show ?thesis
      unfolding salt_bytes_unfold salt_of_bytes_def by (auto simp add: bit_simps)
  next
    case 3
    then show ?thesis
      unfolding salt_bytes_unfold salt_of_bytes_def by (auto simp add: bit_simps)
  next
    case 4
    then show ?thesis
      unfolding salt_bytes_unfold salt_of_bytes_def by (auto simp add: bit_simps)
  next
    case 5
    then show ?thesis
      unfolding salt_bytes_unfold salt_of_bytes_def by (auto simp add: bit_simps)
  next
    case 6
    then show ?thesis
      unfolding salt_bytes_unfold salt_of_bytes_def by (auto simp add: bit_simps)
  next
    case 7
    then show ?thesis
      unfolding salt_bytes_unfold salt_of_bytes_def by (auto simp add: bit_simps)
  next
    case 8
    then show ?thesis
      unfolding salt_bytes_unfold salt_of_bytes_def by (auto simp add: bit_simps)
  qed
qed

subsection \<open>The block buffer\<close>

lemma filter_store_nul_overrun [simp]:
  "filter is_Sendto (store_nul_overrun d i) = []"
  "filter is_Perror (store_nul_overrun d i) = []"
  "filter is_Exit (store_nul_overrun d i) = []"
  "filter is_Fread (store_nul_overrun d i) = []"
  "filter is_Recvfrom (store_nul_overrun d i) = []"
  "filter is_pool_op (store_nul_overrun d i) = []"
  by (simp_all add: store_nul_overrun_def)

lemma fread_items_pos: "0 < fread_items n avail \<longleftrightarrow> 0 < n \<and> n \<le> length avail"
  by (auto simp: fread_items_def div_greater_zero_iff)

lemma take_copy_in: "n \<le> length bs \<Longrightarrow> take n (copy_in d bs) = take n bs"
  by (simp add: copy_in_def)

lemma take_store_nul: "take n (store_nul d n) = take n d"
  by (simp add: store_nul_def)

lemma length_copy_in: "length bs \<le> length d \<Longrightarrow> length (copy_in d bs) = length d"
  by (simp add: copy_in_def)

lemma length_store_nul: "length (store_nul d i) = length d"
  by (simp add: store_nul_def)

lemma recv_count_le: "recv_count size' pl \<le> size'" "recv_count size' pl \<le> length pl"
  by (simp_all add: recv_count_def)

text \<open>
  The block after a receive of \<open>m\<close> bytes and the store of the NUL: the received
  bytes, then the NUL and the old bytes behind it when the block is longer.
\<close>

lemma block_after_receive:
  assumes "length d = size'" and "m = recv_count size' pl"
  shows "take size' (store_nul (copy_in d (take m pl)) m)
           = take m pl @ (if m < size' then 0 # drop (Suc m) d else [])"
proof -
  have len: "length (take m pl) = m"
    using assms(2) by (simp add: recv_count_def)
  have le: "m \<le> size'"
    using assms(2) by (simp add: recv_count_def)
  show ?thesis
  proof (cases "m < size'")
    case True
    then have "drop m d = d ! m # drop (Suc m) d"
      using assms(1) by (simp add: Cons_nth_drop_Suc)
    then show ?thesis
      using True len assms(1)
      by (simp add: store_nul_def copy_in_def list_update_append)
  next
    case False
    then have "m = size'"
      using le by simp
    then show ?thesis
      using len assms(1) by (simp add: store_nul_def copy_in_def)
  qed
qed

subsection \<open>One iteration of the responder\<close>

lemma server_iter_sends:
  "filter is_Sendto (fst (server_iter rnd size' sock st inp)) =
     (if 0 < fread_items (recv_count size' (payload (sv_dgram inp))) (sv_pool inp)
      then [Sendto sock (sender (sv_dgram inp))
              (take (recv_count size' (payload (sv_dgram inp))) (sv_pool inp))]
      else [])"
  by (simp add: server_iter_def Let_def fread_items_pos take_copy_in)

lemma server_iter_freads:
  "filter is_Fread (fst (server_iter rnd size' sock st inp)) =
     [Fread (recv_count size' (payload (sv_dgram inp)))]"
  by (simp add: server_iter_def Let_def)

lemma server_iter_perror:
  "filter is_Perror (fst (server_iter rnd size' sock st inp)) =
     (if 0 < fread_items (recv_count size' (payload (sv_dgram inp))) (sv_pool inp)
      then [] else [Perror ''fread''])"
  by (simp add: server_iter_def Let_def)

lemma server_iter_pool_ops:
  "filter is_pool_op (fst (server_iter rnd size' sock st inp)) =
     [Fwrite (take (recv_count size' (payload (sv_dgram inp))) (payload (sv_dgram inp))),
      Fwrite (salt_bytes (anerd_salt rnd (sv_clock inp) (sv_salt st))),
      Fflush,
      Fread (recv_count size' (payload (sv_dgram inp)))]"
  by (simp add: server_iter_def Let_def take_store_nul take_copy_in recv_count_le)

lemma server_iter_rets:
  "server_iter rnd size' sock st (inp\<lparr>sv_rets := r\<rparr>) = server_iter rnd size' sock st inp"
  by (simp add: server_iter_def)

lemma server_iter_no_exit: "filter is_Exit (fst (server_iter rnd size' sock st inp)) = []"
  by (simp add: server_iter_def Let_def)

lemma server_iter_recvs:
  "filter is_Recvfrom (fst (server_iter rnd size' sock st inp)) = [Recvfrom sock size']"
  by (simp add: server_iter_def Let_def)

lemma server_iter_length:
  "length (sv_data st) = size' \<Longrightarrow> length (sv_data (snd (server_iter rnd size' sock st inp))) = size'"
  by (simp add: server_iter_def Let_def copy_in_def store_nul_def recv_count_def)

text \<open>
  A datagram that fills the block makes the store of the NUL byte land behind it.
\<close>

lemma server_iter_overrun:
  "length (sv_data st) = size' \<Longrightarrow> size' \<le> length (payload (sv_dgram inp)) \<Longrightarrow>
   filter is_Overrun (fst (server_iter rnd size' sock st inp)) = [Overrun size']"
  by (simp add: server_iter_def Let_def store_nul_overrun_def recv_count_def copy_in_def)

subsection \<open>The responder's loop\<close>

lemma server_loop_no_exit: "filter is_Exit (server_loop rnd size' sock st inps) = []"
  by (induction inps arbitrary: st) (simp_all add: server_iter_no_exit)

lemma server_loop_recvs:
  "filter is_Recvfrom (server_loop rnd size' sock st inps)
     = replicate (length inps) (Recvfrom sock size')"
  by (induction inps arbitrary: st) (simp_all add: server_iter_recvs)

subsection \<open>The initiator\<close>

lemma client_draw_perror:
  "filter is_Perror (fst (client_draw size' sock st rd)) =
     (if 0 < fread_items size' (rd_pool rd) then [] else [Perror ''fread''])"
  by (simp add: client_draw_def Let_def)

lemma client_draw_sends:
  "filter is_Sendto (fst (client_draw size' sock st rd)) =
     (if 0 < fread_items size' (rd_pool rd)
      then [Sendto sock (cl_addr st) (take size' (rd_pool rd))] else [])"
  by (simp add: client_draw_def Let_def fread_items_pos take_copy_in)

lemma client_draw_freads:
  "filter is_Fread (fst (client_draw size' sock st rd)) = [Fread size']"
  by (simp add: client_draw_def Let_def)

lemma client_draw_no_exit: "filter is_Exit (fst (client_draw size' sock st rd)) = []"
  by (simp add: client_draw_def Let_def)

lemma client_reply_pool_ops:
  "filter is_pool_op (fst (client_reply rnd size' sock st rp)) =
     [Fwrite (take size' (store_nul (copy_in (cl_data st)
                 (take (recv_count size' (payload (rp_dgram rp))) (payload (rp_dgram rp))))
                 (recv_count size' (payload (rp_dgram rp))))),
      Fwrite (salt_bytes (anerd_salt rnd (rp_clock rp) (cl_salt st))),
      Fflush]"
  by (simp add: client_reply_def Let_def)

lemma client_reply_no_exit: "filter is_Exit (fst (client_reply rnd size' sock st rp)) = []"
  by (simp add: client_reply_def Let_def)

lemma client_reply_no_fread: "filter is_Fread (fst (client_reply rnd size' sock st rp)) = []"
  by (simp add: client_reply_def Let_def)

lemma client_reply_no_sends: "filter is_Sendto (fst (client_reply rnd size' sock st rp)) = []"
  by (simp add: client_reply_def Let_def)

text \<open>After a reply, \<^verbatim>\<open>server_addr\<close> is the address the reply came from.\<close>

lemma client_reply_addr:
  "cl_addr (snd (client_reply rnd size' sock st rp)) = sender (rp_dgram rp)"
  by (simp add: client_reply_def Let_def)

lemma client_reply_rets:
  "client_reply rnd size' sock st (rp\<lparr>rp_rets := r\<rparr>) = client_reply rnd size' sock st rp"
  by (simp add: client_reply_def)

lemma client_poll_no_exit: "filter is_Exit (fst (client_poll rnd size' sock interval st rps)) = []"
  by (induction rps arbitrary: st) (simp_all add: client_reply_no_exit)

lemma client_poll_no_fread: "filter is_Fread (fst (client_poll rnd size' sock interval st rps)) = []"
  by (induction rps arbitrary: st) (simp_all add: client_reply_no_fread)

lemma client_poll_no_sends:
  "filter is_Sendto (fst (client_poll rnd size' sock interval st rps)) = []"
  by (induction rps arbitrary: st) (simp_all add: client_reply_no_sends)

lemma client_round_sends:
  "filter is_Sendto (fst (client_round rnd size' sock interval st rd)) =
     (if 0 < fread_items size' (rd_pool rd)
      then [Sendto sock (cl_addr st) (take size' (rd_pool rd))] else [])"
  by (simp add: client_round_def client_draw_sends client_poll_no_sends)

lemma client_round_no_exit: "filter is_Exit (fst (client_round rnd size' sock interval st rd)) = []"
  by (simp add: client_round_def client_draw_no_exit client_poll_no_exit)

lemma client_round_freads:
  "filter is_Fread (fst (client_round rnd size' sock interval st rd)) = [Fread size']"
  by (simp add: client_round_def client_draw_freads client_poll_no_fread)

lemma client_round_rets:
  "client_round rnd size' sock interval st (rd\<lparr>rd_sendto_ret := r\<rparr>) = client_round rnd size' sock interval st rd"
  by (simp add: client_round_def client_draw_def)

lemma client_loop_no_exit: "filter is_Exit (client_loop rnd size' sock interval st rds) = []"
  by (induction rds arbitrary: st) (simp_all add: client_round_no_exit)

lemma client_loop_freads:
  "filter is_Fread (client_loop rnd size' sock interval st rds) = replicate (length rds) (Fread size')"
  by (induction rds arbitrary: st) (simp_all add: client_round_freads)

subsection \<open>The setup checks that end the process\<close>

lemma anerd_server_setup_failure:
  "sv_socket_ret setup = - 1 \<or> \<not> sv_fopen_ok setup \<or> \<not> sv_calloc_ok setup
     \<or> sv_bind_ret setup = - 1 \<Longrightarrow>
   last (anerd_server rnd setup size' port inps) = Exit 1
   \<and> filter is_Recvfrom (anerd_server rnd setup size' port inps) = []"
  by (auto simp: anerd_server_def Let_def)

lemma anerd_client_setup_failure:
  "\<not> cl_calloc_ok setup \<or> \<not> cl_fopen_ok setup \<Longrightarrow>
   last (anerd_client rnd setup size' port interval rds) = Exit 1
   \<and> filter is_Fread (anerd_client rnd setup size' port interval rds) = []"
  by (auto simp: anerd_client_def Let_def)

subsection \<open>Running the programs on the examples\<close>

lemmas run_simps =
  anerd_server_def anerd_client_def server_iter_def client_round_def client_draw_def
  client_reply_def Let_def recv_count_def copy_in_def store_nul_def store_nul_overrun_def
  fread_items_def anerd_crc_def htons_def poll_timeout_def INADDR_ANY_def INADDR_BROADCAST_def
  peer1_def clock1_def rets_ok_def rets_failed_def server_setup_ok_def client_setup_ok_def

section \<open>The claims\<close>

text \<open>
  Claim C1. For a received datagram of \<open>n > 0\<close> bytes, the responder sends exactly
  \<open>n\<close> bytes back to the sender of the datagram, on the socket it received on, when its
  draw from the pool succeeds (the \<^verbatim>\<open>fread\<close> of \<open>n\<close> bytes returns a positive count);
  when the draw fails it sends nothing, reports the failure with \<^verbatim>\<open>perror\<close>, and does
  not draw again. The iteration starts in any state \<open>st\<close>.
\<close>

theorem C1_reply_exactly_n_or_nothing:
  assumes "n = recv_count size' (payload (sv_dgram inp))" and "0 < n"
  shows "(0 < fread_items n (sv_pool inp) \<longrightarrow>
            filter is_Sendto (fst (server_iter rnd size' sock st inp))
              = [Sendto sock (sender (sv_dgram inp)) (take n (sv_pool inp))]
            \<and> length (take n (sv_pool inp)) = n)
       \<and> (\<not> 0 < fread_items n (sv_pool inp) \<longrightarrow>
            filter is_Sendto (fst (server_iter rnd size' sock st inp)) = []
            \<and> filter is_Perror (fst (server_iter rnd size' sock st inp)) = [Perror ''fread''])
       \<and> filter is_Fread (fst (server_iter rnd size' sock st inp)) = [Fread n]
       \<and> filter is_Recvfrom (fst (server_iter rnd size' sock st inp)) = [Recvfrom sock size']"
proof -
  have len: "0 < fread_items n (sv_pool inp) \<Longrightarrow> length (take n (sv_pool inp)) = n"
    by (simp add: fread_items_pos)
  show ?thesis
    using assms(1) len
    by (simp add: server_iter_sends server_iter_perror server_iter_freads server_iter_recvs)
qed

text \<open>
  C1 at a 3-byte datagram and a block of 4 bytes: with 4 bytes from the device the
  reply is the 3 bytes drawn; with only 2 bytes from the device nothing is sent.
\<close>

theorem C1_reply_witness:
  "filter is_Sendto
     (fst (server_iter (\<lambda>seed. 7) 4 3 \<lparr>sv_data = [0, 0, 0, 0], sv_salt = 0\<rparr>
        \<lparr>sv_dgram = \<lparr>payload = [1, 2, 3], sender = peer1\<rparr>, sv_clock = clock1,
          sv_pool = [9, 8, 7, 6], sv_rets = rets_ok 3\<rparr>))
     = [Sendto 3 peer1 [9, 8, 7]]
   \<and> filter is_Sendto
     (fst (server_iter (\<lambda>seed. 7) 4 3 \<lparr>sv_data = [0, 0, 0, 0], sv_salt = 0\<rparr>
        \<lparr>sv_dgram = \<lparr>payload = [1, 2, 3], sender = peer1\<rparr>, sv_clock = clock1,
          sv_pool = [9, 8], sv_rets = rets_ok 3\<rparr>))
     = []"
  using
    C1_reply_exactly_n_or_nothing [of 3 4
      "\<lparr>sv_dgram = \<lparr>payload = [1, 2, 3], sender = peer1\<rparr>, sv_clock = clock1,
         sv_pool = [9, 8, 7, 6], sv_rets = rets_ok 3\<rparr>"
      "\<lambda>seed. 7" 3 "\<lparr>sv_data = [0, 0, 0, 0], sv_salt = 0\<rparr>"]
    C1_reply_exactly_n_or_nothing [of 3 4
      "\<lparr>sv_dgram = \<lparr>payload = [1, 2, 3], sender = peer1\<rparr>, sv_clock = clock1,
         sv_pool = [9, 8], sv_rets = rets_ok 3\<rparr>"
      "\<lambda>seed. 7" 3 "\<lparr>sv_data = [0, 0, 0, 0], sv_salt = 0\<rparr>"]
  by (simp add: recv_count_def fread_items_def)

text \<open>
  Claim C2 (in both loops the receive is bounded by the block size and no byte is
  written outside the allocated block). The receive is bounded, but the statement
  \<^verbatim>\<open>data[bytes_read] = 0\<close> that follows it stores one byte behind the block whenever
  the datagram fills it. With a block of 4 bytes (indices 0 to 3), the responder that
  receives a 4-byte datagram and the initiator that receives a 6-byte reply both
  store at index 4.
\<close>

theorem C2_nul_stored_behind_the_block:
  "filter is_Overrun
     (anerd_server rnd (server_setup_ok 0) 4 26373
        [\<lparr>sv_dgram = \<lparr>payload = [1, 2, 3, 4], sender = peer1\<rparr>, sv_clock = clock1,
          sv_pool = [9, 8, 7, 6], sv_rets = rets_ok 4\<rparr>])
     = [Overrun 4]
   \<and> filter is_Overrun
     (anerd_client rnd client_setup_ok 4 26373 60
        [\<lparr>rd_pool = [9, 9, 9, 9], rd_sendto_ret = 4,
          rd_replies = [\<lparr>rp_dgram = \<lparr>payload = [1, 2, 3, 4, 5, 6], sender = peer1\<rparr>,
                          rp_clock = clock1, rp_rets = rets_ok 0\<rparr>]\<rparr>])
     = [Overrun 4]"
  by (simp add: run_simps)

text \<open>
  Claim C3 (every round of the initiator, also after replies, sends the drawn block
  to the broadcast address on the configured port). \<^verbatim>\<open>recvfrom\<close> stores the sender of
  a reply in \<^verbatim>\<open>server_addr\<close>, the variable \<^verbatim>\<open>sendto\<close> takes its destination from: after
  a reply from 203.0.113.5:40000 in the first round, the block of the second round
  goes to that peer and not to the broadcast address.
\<close>

theorem C3_second_round_sent_to_last_replier:
  "filter is_Sendto
     (anerd_client rnd client_setup_ok 4 26373 60
        [\<lparr>rd_pool = [9, 9, 9, 9], rd_sendto_ret = 4,
          rd_replies = [\<lparr>rp_dgram = \<lparr>payload = [1, 2, 3, 4], sender = peer1\<rparr>,
                          rp_clock = clock1, rp_rets = rets_ok 0\<rparr>]\<rparr>,
         \<lparr>rd_pool = [5, 6, 7, 8], rd_sendto_ret = 4, rd_replies = []\<rparr>])
     = [Sendto 3 \<lparr>sin_addr = INADDR_BROADCAST, sin_port = 26373\<rparr> [9, 9, 9, 9],
        Sendto 3 peer1 [5, 6, 7, 8]]
   \<and> peer1 \<noteq> \<lparr>sin_addr = INADDR_BROADCAST, sin_port = 26373\<rparr>"
  by (simp add: run_simps)

text \<open>
  Claim C4 (for a reply of \<open>n\<close> bytes the initiator donates exactly the \<open>n\<close> received
  bytes followed by the salt). The initiator writes \<^verbatim>\<open>size\<close> bytes of the block, not
  \<^verbatim>\<open>bytes_read\<close> as the responder does: after broadcasting the block 9 9 9 9, a reply
  of the two bytes 1 2 makes it write 1 2 0 9 (the reply, the NUL, and a byte of the
  block it broadcast) before the salt.
\<close>

theorem C4_short_reply_donates_whole_block:
  "filter is_pool_op
     (anerd_client rnd client_setup_ok 4 26373 60
        [\<lparr>rd_pool = [9, 9, 9, 9], rd_sendto_ret = 4,
          rd_replies = [\<lparr>rp_dgram = \<lparr>payload = [1, 2], sender = peer1\<rparr>,
                          rp_clock = clock1, rp_rets = rets_ok 0\<rparr>]\<rparr>])
     = [Fread 4, Fwrite [1, 2, 0, 9], Fwrite (salt_bytes (anerd_salt rnd clock1 0)), Fflush]"
  by (simp add: run_simps)

text \<open>
  Claim C5 (the salt of a non-zero \<open>previous\<close> is \<open>previous\<close> XOR the current
  microsecond clock reading). At the clock reading 0 s, 1 us and \<open>previous = 2\<close> the
  function returns \<open>2 XOR 1000001 = 1000003\<close>, while \<open>previous\<close> XOR the microsecond
  reading is 3, whether the reading is the microsecond field or the whole time in
  microseconds: the code multiplies \<^verbatim>\<open>tv_usec\<close> where \<^verbatim>\<open>tv_sec\<close> was meant.
\<close>

theorem C5_salt_is_not_xor_of_usec_reading:
  "anerd_salt rnd \<lparr>tod = \<lparr>tv_sec = 0, tv_usec = 1\<rparr>, now = 0\<rparr> 2 = 1000003
   \<and> (2 :: 64 word) XOR tv_usec \<lparr>tv_sec = 0, tv_usec = 1\<rparr> = 3
   \<and> (2 :: 64 word) XOR (1000000 * tv_sec \<lparr>tv_sec = 0, tv_usec = 1\<rparr>
                           + tv_usec \<lparr>tv_sec = 0, tv_usec = 1\<rparr>) = 3"
  by (simp add: anerd_salt_def)

text \<open>
  Claim C6 (two calls with the same non-zero salt at different clock times give
  different salts). The seconds never enter the result: one second apart, at 10 s 5 us
  and at 11 s 5 us, the two calls return the same value.
\<close>

theorem C6_same_salt_one_second_apart:
  "anerd_salt rnd \<lparr>tod = \<lparr>tv_sec = 10, tv_usec = 5\<rparr>, now = 10\<rparr> 1
     = anerd_salt rnd \<lparr>tod = \<lparr>tv_sec = 11, tv_usec = 5\<rparr>, now = 11\<rparr> 1
   \<and> \<lparr>tv_sec = 10, tv_usec = 5\<rparr> \<noteq> \<lparr>tv_sec = 11, tv_usec = (5 :: 64 word)\<rparr>"
  by (simp add: anerd_salt_def)

text \<open>
  Claim C7 (in each loop the salt is zero before the first mix, so that the first
  call of \<^verbatim>\<open>anerd_salt\<close> re-seeds). The initiator initialises its salt to 0; the
  responder does not initialise it. When the responder's variable holds 1 on entry,
  the first salt it donates is \<open>1 XOR 3000003 = 3000002\<close> whatever \<^verbatim>\<open>rand()\<close> would
  return: the re-seeding branch is not taken. The initiator's first salt comes from
  \<^verbatim>\<open>rand()\<close>.
\<close>

theorem C7_responder_salt_starts_indeterminate:
  "filter is_pool_op
     (anerd_server rnd (server_setup_ok 1) 4 26373
        [\<lparr>sv_dgram = \<lparr>payload = [1, 2, 3, 4], sender = peer1\<rparr>, sv_clock = clock1,
          sv_pool = [9, 8, 7, 6], sv_rets = rets_ok 4\<rparr>])
     = [Fwrite [1, 2, 3, 4], Fwrite (salt_bytes 3000002), Fflush, Fread 4]
   \<and> filter is_pool_op
     (anerd_client rnd client_setup_ok 4 26373 60
        [\<lparr>rd_pool = [9, 9, 9, 9], rd_sendto_ret = 4,
          rd_replies = [\<lparr>rp_dgram = \<lparr>payload = [1, 2, 3, 4], sender = peer1\<rparr>,
                          rp_clock = clock1, rp_rets = rets_ok 0\<rparr>]\<rparr>])
     = [Fread 4, Fwrite [1, 2, 3, 4], Fwrite (salt_bytes (scast (rnd 100) XOR 3000003)),
        Fflush]"
  by (simp add: run_simps anerd_salt_def)

text \<open>
  Claim C8. Every donation is the write of the bytes, the write of the 8 bytes of the
  salt value, and a flush, in this order. The 8 bytes are the value that
  \<^verbatim>\<open>anerd_salt\<close> has just returned: read back, least significant byte first, they give
  that value. In the responder the bytes are the \<open>n\<close> received bytes, the donation
  comes before the draw, and it appends \<open>n + 8\<close> bytes: 72 for a 64-byte datagram. In
  the initiator, on its block of \<^verbatim>\<open>size\<close> bytes, the bytes are the \<open>m\<close> received
  bytes and, when \<open>m\<close> is less than \<^verbatim>\<open>size\<close>, the NUL and the rest of the block.
\<close>

theorem C8_donate_appends_bytes_then_salt:
  assumes "n = recv_count size' (payload (sv_dgram inp))"
      and "salt1 = anerd_salt rnd (sv_clock inp) (sv_salt st)"
      and "m = recv_count size' (payload (rp_dgram rp))"
      and "salt2 = anerd_salt rnd (rp_clock rp) (cl_salt cst)"
  shows "filter is_pool_op (fst (server_iter rnd size' sock st inp))
           = [Fwrite (take n (payload (sv_dgram inp))),
              Fwrite (salt_bytes salt1),
              Fflush,
              Fread n]
       \<and> length (salt_bytes salt1) = 8
       \<and> salt_of_bytes (salt_bytes salt1) = salt1
       \<and> sv_salt (snd (server_iter rnd size' sock st inp)) = salt1
       \<and> length (take n (payload (sv_dgram inp)) @ salt_bytes salt1) = n + 8
       \<and> (n = 64 \<longrightarrow> length (take n (payload (sv_dgram inp)) @ salt_bytes salt1) = 72)
       \<and> (length (cl_data cst) = size' \<longrightarrow>
            filter is_pool_op (fst (client_reply rnd size' sock cst rp))
              = [Fwrite (take m (payload (rp_dgram rp))
                         @ (if m < size' then 0 # drop (Suc m) (cl_data cst) else [])),
                 Fwrite (salt_bytes salt2),
                 Fflush]
            \<and> salt_of_bytes (salt_bytes salt2) = salt2
            \<and> cl_salt (snd (client_reply rnd size' sock cst rp)) = salt2)"
proof -
  have len: "length (take n (payload (sv_dgram inp))) = n"
    using assms(1) by (simp add: recv_count_def)
  have srv: "filter is_pool_op (fst (server_iter rnd size' sock st inp))
               = [Fwrite (take n (payload (sv_dgram inp))), Fwrite (salt_bytes salt1),
                  Fflush, Fread n]"
    using assms(1,2) by (simp add: server_iter_pool_ops)
  have srv_salt: "sv_salt (snd (server_iter rnd size' sock st inp)) = salt1"
    using assms(2) by (simp add: server_iter_def Let_def)
  have cl: "filter is_pool_op (fst (client_reply rnd size' sock cst rp))
              = [Fwrite (take m (payload (rp_dgram rp))
                         @ (if m < size' then 0 # drop (Suc m) (cl_data cst) else [])),
                 Fwrite (salt_bytes salt2), Fflush]"
    if "length (cl_data cst) = size'"
    using block_after_receive [OF that assms(3)] assms(3,4)
    by (simp add: client_reply_pool_ops)
  have cl_salt: "cl_salt (snd (client_reply rnd size' sock cst rp)) = salt2"
    using assms(4) by (simp add: client_reply_def Let_def)
  show ?thesis
    using srv srv_salt cl cl_salt len
    by (simp add: length_salt_bytes salt_of_bytes_salt_bytes)
qed

text \<open>
  C8 at the default block size: a responder with a 64-byte block that receives 64
  bytes writes them and the 8 bytes 196 198 45 0 0 0 0 0 of its salt
  \<open>3000004 = 0x2DC6C4\<close>, 72 bytes, flushes, and then draws. An initiator with the
  block 9 9 9 9 that receives the bytes 1 2 writes 1 2 0 9 and the same salt bytes.
\<close>

theorem C8_donate_witness:
  "filter is_pool_op
     (fst (server_iter (\<lambda>seed. 7) 64 3 \<lparr>sv_data = replicate 64 0, sv_salt = 0\<rparr>
        \<lparr>sv_dgram = \<lparr>payload = replicate 64 1, sender = peer1\<rparr>, sv_clock = clock1,
          sv_pool = replicate 64 9, sv_rets = rets_ok 64\<rparr>))
     = [Fwrite (replicate 64 1), Fwrite [196, 198, 45, 0, 0, 0, 0, 0], Fflush, Fread 64]
   \<and> salt_of_bytes [196, 198, 45, 0, 0, 0, 0, 0] = 3000004
   \<and> anerd_salt (\<lambda>seed. 7) clock1 0 = 3000004
   \<and> length (replicate 64 (1 :: byte) @ [196, 198, 45, 0, 0, 0, 0, 0 :: byte]) = 72
   \<and> filter is_pool_op
     (fst (client_reply (\<lambda>seed. 7) 4 3
        \<lparr>cl_data = [9, 9, 9, 9], cl_salt = 0, cl_addr = peer1\<rparr>
        \<lparr>rp_dgram = \<lparr>payload = [1, 2], sender = peer1\<rparr>, rp_clock = clock1,
          rp_rets = rets_ok 0\<rparr>))
     = [Fwrite [1, 2, 0, 9], Fwrite [196, 198, 45, 0, 0, 0, 0, 0], Fflush]"
proof -
  let ?inp = "\<lparr>sv_dgram = \<lparr>payload = replicate 64 1, sender = peer1\<rparr>, sv_clock = clock1,
                sv_pool = replicate 64 9, sv_rets = rets_ok 64\<rparr>"
  let ?st = "\<lparr>sv_data = replicate 64 0, sv_salt = 0\<rparr>"
  let ?rp = "\<lparr>rp_dgram = \<lparr>payload = [1, 2], sender = peer1\<rparr>, rp_clock = clock1,
               rp_rets = rets_ok 0\<rparr>"
  let ?cst = "\<lparr>cl_data = [9, 9, 9, 9], cl_salt = 0, cl_addr = peer1\<rparr>"
  have salt: "anerd_salt (\<lambda>seed. 7) clock1 0 = 3000004"
    by (simp add: anerd_salt_def clock1_def)
  have bytes: "salt_bytes 3000004 = [196, 198, 45, 0, 0, 0, 0, 0]"
    by (simp add: salt_bytes_def upt_rec)
  have n64: "64 = recv_count 64 (payload (sv_dgram ?inp))"
    by (simp add: recv_count_def)
  have n4: "4 = recv_count 4 (payload (sv_dgram ?inp))"
    by (simp add: recv_count_def)
  have s1: "3000004 = anerd_salt (\<lambda>seed. 7) (sv_clock ?inp) (sv_salt ?st)"
    using salt by simp
  have m64: "2 = recv_count 64 (payload (rp_dgram ?rp))"
    by (simp add: recv_count_def)
  have m4: "2 = recv_count 4 (payload (rp_dgram ?rp))"
    by (simp add: recv_count_def)
  have s2: "3000004 = anerd_salt (\<lambda>seed. 7) (rp_clock ?rp) (cl_salt ?cst)"
    using salt by simp
  have server:
    "filter is_pool_op (fst (server_iter (\<lambda>seed. 7) 64 3 ?st ?inp))
       = [Fwrite (replicate 64 1), Fwrite [196, 198, 45, 0, 0, 0, 0, 0], Fflush, Fread 64]
     \<and> salt_of_bytes [196, 198, 45, 0, 0, 0, 0, 0] = 3000004"
    using C8_donate_appends_bytes_then_salt [OF n64 s1 m64 s2, of 3] bytes by simp
  have client:
    "filter is_pool_op (fst (client_reply (\<lambda>seed. 7) 4 3 ?cst ?rp))
       = [Fwrite [1, 2, 0, 9], Fwrite [196, 198, 45, 0, 0, 0, 0, 0], Fflush]"
    using C8_donate_appends_bytes_then_salt [OF n4 s1 m4 s2, of 3] bytes by simp
  show ?thesis
    using server client salt by simp
qed

text \<open>
  Claim C9 (every setup failure, in either loop, is reported and ends the process
  before the loop). The responder leaves through \<^verbatim>\<open>exit(1)\<close> after each of its four
  checks; the initiator does so after a failed \<^verbatim>\<open>calloc\<close> or \<^verbatim>\<open>fopen\<close>, but after a
  failed \<^verbatim>\<open>socket\<close> it only prints: with \<^verbatim>\<open>socket\<close> returning -1 it enters the loop,
  draws a block, calls \<^verbatim>\<open>sendto\<close> on the descriptor -1 and waits in \<^verbatim>\<open>poll\<close>; the
  trace has no exit.
\<close>

theorem C9_initiator_runs_without_socket:
  "anerd_client rnd
     \<lparr>cl_calloc_ok = True, cl_socket_ret = - 1, cl_setsockopt_ret = - 1, cl_fopen_ok = True\<rparr>
     4 26373 60 [\<lparr>rd_pool = [9, 9, 9, 9], rd_sendto_ret = - 1, rd_replies = []\<rparr>]
   = [Perror ''socket'', Perror ''setsockopt (SO_BROADCAST)'', Fread 4,
      Syslog ''Client sent bcast'' 4 36 \<lparr>sin_addr = INADDR_BROADCAST, sin_port = 26373\<rparr>,
      Sendto (- 1) \<lparr>sin_addr = INADDR_BROADCAST, sin_port = 26373\<rparr> [9, 9, 9, 9],
      Poll 60000]"
  by (simp add: run_simps)

text \<open>
  Claim C10 as stated (every failing donate, draw or send is reported and the
  iteration is abandoned) fails: in a responder iteration in which both writes of the
  donation, its flush and the \<^verbatim>\<open>sendto\<close> fail, nothing is reported, and after the
  failed donation the iteration still draws and sends.
\<close>

theorem C10_unreported_failures_counterexample:
  "fwrite_data_ret rets_failed = 0 \<and> fwrite_salt_ret rets_failed = 0
   \<and> fflush_ret rets_failed = - 1 \<and> sendto_ret rets_failed = - 1
   \<and> fst (server_iter (\<lambda>seed. 7) 4 3 \<lparr>sv_data = [0, 0, 0, 0], sv_salt = 1\<rparr>
        \<lparr>sv_dgram = \<lparr>payload = [1, 2], sender = peer1\<rparr>, sv_clock = clock1,
          sv_pool = [9, 8], sv_rets = rets_failed\<rparr>)
     = [Recvfrom 3 4, Syslog ''Server recv bcast'' 2 3 peer1, Fflush_stdout,
        Fwrite [1, 2], Fwrite (salt_bytes 3000002), Fflush, Fread 2,
        Sendto 3 peer1 [9, 8], Syslog ''Server sent direct'' 2 17 peer1]
   \<and> filter is_Perror
       (fst (server_iter (\<lambda>seed. 7) 4 3 \<lparr>sv_data = [0, 0, 0, 0], sv_salt = 1\<rparr>
          \<lparr>sv_dgram = \<lparr>payload = [1, 2], sender = peer1\<rparr>, sv_clock = clock1,
            sv_pool = [9, 8], sv_rets = rets_failed\<rparr>))
     = []"
  by (simp add: run_simps anerd_salt_def)

text \<open>
  Claim C10, amended. The results of the donation's calls and of \<^verbatim>\<open>sendto\<close> are not
  read: whatever they are, the iteration (responder), the round and the handling of a
  reply (initiator) are the same. A failing draw is reported with \<^verbatim>\<open>perror\<close>, nothing
  is sent for it, and the draw is not repeated. No failure ends a loop: the trace of a
  loop has no exit, the responder receives once for every input, and the initiator
  draws once for every round.
\<close>

theorem C10_failures_do_not_stop_the_loops:
  "server_iter rnd size' sock st (inp\<lparr>sv_rets := r\<rparr>) = server_iter rnd size' sock st inp
   \<and> (\<not> 0 < fread_items (recv_count size' (payload (sv_dgram inp))) (sv_pool inp) \<longrightarrow>
        filter is_Perror (fst (server_iter rnd size' sock st inp)) = [Perror ''fread'']
        \<and> filter is_Sendto (fst (server_iter rnd size' sock st inp)) = []
        \<and> filter is_Fread (fst (server_iter rnd size' sock st inp))
            = [Fread (recv_count size' (payload (sv_dgram inp)))])
   \<and> filter is_Exit (server_loop rnd size' sock st inps) = []
   \<and> filter is_Recvfrom (server_loop rnd size' sock st inps)
       = replicate (length inps) (Recvfrom sock size')
   \<and> client_round rnd size' sock interval cst (rd\<lparr>rd_sendto_ret := r'\<rparr>)
       = client_round rnd size' sock interval cst rd
   \<and> client_reply rnd size' sock cst (rp\<lparr>rp_rets := r\<rparr>) = client_reply rnd size' sock cst rp
   \<and> (\<not> 0 < fread_items size' (rd_pool rd) \<longrightarrow>
        filter is_Perror (fst (client_draw size' sock cst rd)) = [Perror ''fread'']
        \<and> filter is_Sendto (fst (client_draw size' sock cst rd)) = []
        \<and> filter is_Sendto (fst (client_round rnd size' sock interval cst rd)) = []
        \<and> filter is_Fread (fst (client_round rnd size' sock interval cst rd)) = [Fread size'])
   \<and> filter is_Exit (client_loop rnd size' sock interval cst rds) = []
   \<and> filter is_Fread (client_loop rnd size' sock interval cst rds)
       = replicate (length rds) (Fread size')"
  by (simp add: server_iter_rets server_iter_perror server_iter_sends server_iter_freads
      server_loop_no_exit server_loop_recvs client_round_rets client_reply_rets
      client_draw_perror client_draw_sends client_round_sends client_round_freads
      client_loop_no_exit
      client_loop_freads)

text \<open>
  C10 at a failing draw in each loop: the device delivers one byte where two
  (responder) and four (initiator) are asked for.
\<close>

theorem C10_failing_draw_witness:
  "filter is_Perror
     (fst (server_iter (\<lambda>seed. 7) 4 3 \<lparr>sv_data = [0, 0, 0, 0], sv_salt = 1\<rparr>
        \<lparr>sv_dgram = \<lparr>payload = [1, 2], sender = peer1\<rparr>, sv_clock = clock1,
          sv_pool = [9], sv_rets = rets_ok 0\<rparr>))
     = [Perror ''fread'']
   \<and> filter is_Sendto
     (fst (server_iter (\<lambda>seed. 7) 4 3 \<lparr>sv_data = [0, 0, 0, 0], sv_salt = 1\<rparr>
        \<lparr>sv_dgram = \<lparr>payload = [1, 2], sender = peer1\<rparr>, sv_clock = clock1,
          sv_pool = [9], sv_rets = rets_ok 0\<rparr>))
     = []
   \<and> filter is_Perror
     (fst (client_draw 4 3 \<lparr>cl_data = [0, 0, 0, 0], cl_salt = 0, cl_addr = peer1\<rparr>
        \<lparr>rd_pool = [9], rd_sendto_ret = 0, rd_replies = []\<rparr>))
     = [Perror ''fread'']
   \<and> filter is_Sendto
     (fst (client_draw 4 3 \<lparr>cl_data = [0, 0, 0, 0], cl_salt = 0, cl_addr = peer1\<rparr>
        \<lparr>rd_pool = [9], rd_sendto_ret = 0, rd_replies = []\<rparr>))
     = []"
  using
    C10_failures_do_not_stop_the_loops [where rnd = "\<lambda>seed. 7" and size' = 4 and sock = 3
      and st = "\<lparr>sv_data = [0, 0, 0, 0], sv_salt = 1\<rparr>"
      and inp = "\<lparr>sv_dgram = \<lparr>payload = [1, 2], sender = peer1\<rparr>, sv_clock = clock1,
                  sv_pool = [9], sv_rets = rets_ok 0\<rparr>"
      and cst = "\<lparr>cl_data = [0, 0, 0, 0], cl_salt = 0, cl_addr = peer1\<rparr>"
      and rd = "\<lparr>rd_pool = [9], rd_sendto_ret = 0, rd_replies = []\<rparr>"]
  by (simp add: recv_count_def fread_items_def)

end
